theory Spec2Isabelle
  imports Complex_Main
begin

section \<open>The schema builder used by the migration\<close>

text \<open>
  The migration \<^verbatim>\<open>20211026122545_create_outgoing_payments_table.js\<close> talks to a
  schema builder: \<^verbatim>\<open>knex.schema.createTable(name, callback)\<close> runs the callback on a
  fresh table builder, and every statement of the callback adds a column, a foreign key
  or an index to it. A column is created by a call named after its type and then refined
  by chained modifiers. The column types below are the ones the builder offers for
  scalars; the migration uses five of them.
\<close>

datatype column_type =
    Uuid | String | Integer | BigInteger | Timestamp
  | Float | Double | Decimal | Boolean | Text

datatype default_value = DefaultInt int | DefaultNow

record column =
  name :: string
  ctype :: column_type
  is_nullable :: bool
  default_to :: "default_value option"
  is_primary :: bool
  is_indexed :: bool

text \<open>
  A column that got neither \<^verbatim>\<open>.nullable()\<close> nor \<^verbatim>\<open>.notNullable()\<close> accepts NULL,
  as in SQL; it has no default, is no primary key and carries no index.
\<close>

definition new_column :: "column_type \<Rightarrow> string \<Rightarrow> column" where
  "new_column ty n =
     \<lparr>name = n, ctype = ty, is_nullable = True, default_to = None,
      is_primary = False, is_indexed = False\<rparr>"

definition uuid :: "string \<Rightarrow> column" where
  "uuid = new_column Uuid"

definition string :: "string \<Rightarrow> column" where
  "string = new_column String"

definition integer :: "string \<Rightarrow> column" where
  "integer = new_column Integer"

definition bigInteger :: "string \<Rightarrow> column" where
  "bigInteger = new_column BigInteger"

definition timestamp :: "string \<Rightarrow> column" where
  "timestamp = new_column Timestamp"

definition notNullable :: "column \<Rightarrow> column" where
  "notNullable c = c\<lparr>is_nullable := False\<rparr>"

definition nullable :: "column \<Rightarrow> column" where
  "nullable c = c\<lparr>is_nullable := True\<rparr>"

definition primary :: "column \<Rightarrow> column" where
  "primary c = c\<lparr>is_primary := True\<rparr>"

definition index :: "column \<Rightarrow> column" where
  "index c = c\<lparr>is_indexed := True\<rparr>"

definition defaultTo :: "default_value \<Rightarrow> column \<Rightarrow> column" where
  "defaultTo d c = c\<lparr>default_to := Some d\<rparr>"

text \<open>
  The table builder: the columns in the order of their declaration, the foreign keys
  (\<^verbatim>\<open>table.foreign(col).references(target)\<close>) and the indexes declared on the table
  itself (\<^verbatim>\<open>table.index([..])\<close>).
\<close>

record table_def =
  columns :: "column list"
  foreigns :: "(string \<times> string) list"
  table_indexes :: "string list list"

definition empty_table :: table_def where
  "empty_table = \<lparr>columns = [], foreigns = [], table_indexes = []\<rparr>"

definition add_column :: "column \<Rightarrow> table_def \<Rightarrow> table_def" where
  "add_column c t = t\<lparr>columns := columns t @ [c]\<rparr>"

definition foreign_references :: "string \<Rightarrow> string \<Rightarrow> table_def \<Rightarrow> table_def" where
  "foreign_references col target t = t\<lparr>foreigns := foreigns t @ [(col, target)]\<rparr>"

definition add_index :: "string list \<Rightarrow> table_def \<Rightarrow> table_def" where
  "add_index cols t = t\<lparr>table_indexes := table_indexes t @ [cols]\<rparr>"

text \<open>Running the statements of a callback, first to last, on a table builder.\<close>

fun run_statements :: "(table_def \<Rightarrow> table_def) list \<Rightarrow> table_def \<Rightarrow> table_def" where
  "run_statements [] t = t"
| "run_statements (f # fs) t = run_statements fs (f t)"

text \<open>
  Every index of a built table, as the list of the columns it covers: the one-column
  indexes of the columns marked with \<^verbatim>\<open>.index()\<close>, then the indexes declared on the
  table.
\<close>

definition indexes :: "table_def \<Rightarrow> string list list" where
  "indexes t = map (\<lambda>c. [name c]) (filter is_indexed (columns t)) @ table_indexes t"

definition column_names :: "table_def \<Rightarrow> string list" where
  "column_names t = map name (columns t)"

fun find_column :: "column list \<Rightarrow> string \<Rightarrow> column option" where
  "find_column [] n = None"
| "find_column (c # cs) n = (if name c = n then Some c else find_column cs n)"

definition get_column :: "table_def \<Rightarrow> string \<Rightarrow> column option" where
  "get_column t n = find_column (columns t) n"

text \<open>
  A schema is the list of its tables with their names, in the order of their creation.
  \<^verbatim>\<open>createTable\<close> has no "if not exists" guard: on a schema that already has a
  table of that name the database rejects the statement. \<^verbatim>\<open>dropTableIfExists\<close>
  never fails on a missing table.
\<close>

type_synonym schema = "(string \<times> table_def) list"

datatype migration_error = TableAlreadyExists string

definition createTable ::
  "string \<Rightarrow> (table_def \<Rightarrow> table_def) list \<Rightarrow> schema \<Rightarrow> migration_error + schema" where
  "createTable n callback s =
     (case map_of s n of
        Some _ \<Rightarrow> Inl (TableAlreadyExists n)
      | None \<Rightarrow> Inr (s @ [(n, run_statements callback empty_table)]))"

definition dropTableIfExists :: "string \<Rightarrow> schema \<Rightarrow> migration_error + schema" where
  "dropTableIfExists n s = Inr (filter (\<lambda>entry. fst entry \<noteq> n) s)"

section \<open>The migration\<close>

definition outgoingPayments_callback :: "(table_def \<Rightarrow> table_def) list" where
  "outgoingPayments_callback =
    [ add_column (primary (notNullable (uuid ''id''))),

      add_column (index (notNullable (string ''state''))),
      add_column (nullable (string ''error'')),
      add_column (defaultTo (DefaultInt 0) (notNullable (integer ''stateAttempts''))),
      add_column (nullable (string ''description'')),
      add_column (nullable (string ''externalRef'')),

      add_column (nullable (string ''receivingAccount'')),
      add_column (nullable (string ''receivingPayment'')),
      add_column (nullable (bigInteger ''sendAmountValue'')),
      add_column (nullable (bigInteger ''receiveAmountValue'')),
      add_column (nullable (string ''receiveAmountAssetCode'')),
      add_column (nullable (integer ''receiveAmountAssetScale'')),

      add_column (nullable (timestamp ''quoteTimestamp'')),
      add_column (nullable (string ''quoteTargetType'')),
      add_column (nullable (bigInteger ''quoteMaxPacketAmount'')),

      add_column (nullable (bigInteger ''quoteMinExchangeRateNumerator'')),
      add_column (nullable (bigInteger ''quoteMinExchangeRateDenominator'')),
      add_column (nullable (bigInteger ''quoteLowExchangeRateEstimateNumerator'')),
      add_column (nullable (bigInteger ''quoteLowExchangeRateEstimateDenominator'')),
      add_column (nullable (bigInteger ''quoteHighExchangeRateEstimateNumerator'')),
      add_column (nullable (bigInteger ''quoteHighExchangeRateEstimateDenominator'')),

      add_column (notNullable (uuid ''accountId'')),
      foreign_references ''accountId'' ''accounts.id'',

      add_column (notNullable (uuid ''assetId'')),
      foreign_references ''assetId'' ''assets.id'',

      add_column (defaultTo DefaultNow (timestamp ''createdAt'')),
      add_column (defaultTo DefaultNow (timestamp ''updatedAt'')),

      add_index [''accountId'', ''createdAt'', ''id''] ]"

definition up :: "schema \<Rightarrow> migration_error + schema" where
  "up s = createTable ''outgoingPayments'' outgoingPayments_callback s"

definition down :: "schema \<Rightarrow> migration_error + schema" where
  "down s = dropTableIfExists ''outgoingPayments'' s"

text \<open>The table the migration builds, whatever the schema it runs on.\<close>

definition outgoingPayments :: table_def where
  "outgoingPayments = run_statements outgoingPayments_callback empty_table"

subsection \<open>Reading a schema\<close>

definition table_of :: "schema \<Rightarrow> string \<Rightarrow> table_def option" where
  "table_of s n = map_of s n"

definition has_index :: "schema \<Rightarrow> string \<Rightarrow> string list \<Rightarrow> bool" where
  "has_index s n cols =
     (case table_of s n of None \<Rightarrow> False | Some t \<Rightarrow> cols \<in> set (indexes t))"

definition has_column :: "schema \<Rightarrow> string \<Rightarrow> string \<Rightarrow> bool" where
  "has_column s n c =
     (case table_of s n of None \<Rightarrow> False | Some t \<Rightarrow> c \<in> set (column_names t))"

definition column_in :: "schema \<Rightarrow> string \<Rightarrow> string \<Rightarrow> column option" where
  "column_in s n c = (case table_of s n of None \<Rightarrow> None | Some t \<Rightarrow> get_column t c)"

definition type_in :: "schema \<Rightarrow> string \<Rightarrow> string \<Rightarrow> column_type option" where
  "type_in s n c = map_option ctype (column_in s n c)"

definition nullable_in :: "schema \<Rightarrow> string \<Rightarrow> string \<Rightarrow> bool option" where
  "nullable_in s n c = map_option is_nullable (column_in s n c)"

definition default_in :: "schema \<Rightarrow> string \<Rightarrow> string \<Rightarrow> default_value option option" where
  "default_in s n c = map_option default_to (column_in s n c)"

definition has_foreign :: "schema \<Rightarrow> string \<Rightarrow> string \<Rightarrow> string \<Rightarrow> bool" where
  "has_foreign s n col target =
     (case table_of s n of None \<Rightarrow> False | Some t \<Rightarrow> (col, target) \<in> set (foreigns t))"

text \<open>
  The floating-point column types of the builder are \<^verbatim>\<open>float\<close> and \<^verbatim>\<open>double\<close>;
  \<^verbatim>\<open>integer\<close> and \<^verbatim>\<open>bigInteger\<close> are its integer types.
\<close>

fun is_floating_point :: "column_type \<Rightarrow> bool" where
  "is_floating_point Float = True"
| "is_floating_point Double = True"
| "is_floating_point _ = False"

fun is_integer_type :: "column_type \<Rightarrow> bool" where
  "is_integer_type Integer = True"
| "is_integer_type BigInteger = True"
| "is_integer_type _ = False"

definition floating_point_columns :: "schema \<Rightarrow> string \<Rightarrow> string list" where
  "floating_point_columns s n =
     (case table_of s n of
        None \<Rightarrow> []
      | Some t \<Rightarrow> map name (filter (\<lambda>c. is_floating_point (ctype c)) (columns t)))"

fun starts_with :: "string \<Rightarrow> string \<Rightarrow> bool" where
  "starts_with [] n = True"
| "starts_with (p # ps) [] = False"
| "starts_with (p # ps) (c # cs) = (p = c \<and> starts_with ps cs)"

definition columns_with_prefix :: "schema \<Rightarrow> string \<Rightarrow> string \<Rightarrow> string list" where
  "columns_with_prefix s n p =
     (case table_of s n of
        None \<Rightarrow> []
      | Some t \<Rightarrow> filter (starts_with p) (column_names t))"

subsection \<open>Rows and the constraints of an insert\<close>

text \<open>
  What the declared types, nullability, defaults, primary key and foreign keys mean for
  an insert. A value is NULL, a uuid in its text form, a character string, an integer
  or a timestamp in seconds since the Unix epoch. A row names some of the columns and
  gives each a value.
\<close>

datatype sql_value =
  Null | UuidValue string | StringValue string | IntValue int | TimestampValue nat

type_synonym row = "(string \<times> sql_value) list"

text \<open>
  The text of a uuid: five groups of 8, 4, 4, 4 and 12 hexadecimal digits with hyphens
  between them. The database reads upper and lower case alike and compares uuids by
  their value, so values are compared in lower case. (It reads some other spellings of
  a uuid as well; they are not values of this model.)
\<close>

definition is_hex :: "char \<Rightarrow> bool" where
  "is_hex c = (c \<in> set ''0123456789abcdefABCDEF'')"

fun uuid_groups :: "nat list \<Rightarrow> string \<Rightarrow> bool" where
  "uuid_groups [] s = False"
| "uuid_groups [n] s = (length s = n \<and> list_all is_hex s)"
| "uuid_groups (n # ns) s =
     (length (take n s) = n \<and> list_all is_hex (take n s) \<and> take 1 (drop n s) = ''-''
      \<and> uuid_groups ns (drop (Suc n) s))"

definition is_uuid_text :: "string \<Rightarrow> bool" where
  "is_uuid_text s = uuid_groups [8, 4, 4, 4, 12] s"

definition lower_hex :: "char \<Rightarrow> char" where
  "lower_hex c =
     (if c = CHR ''A'' then CHR ''a'' else if c = CHR ''B'' then CHR ''b''
      else if c = CHR ''C'' then CHR ''c'' else if c = CHR ''D'' then CHR ''d''
      else if c = CHR ''E'' then CHR ''e'' else if c = CHR ''F'' then CHR ''f''
      else c)"

fun canonical :: "sql_value \<Rightarrow> sql_value" where
  "canonical (UuidValue u) = UuidValue (map lower_hex u)"
| "canonical v = v"

text \<open>
  Whether a value fits a column of a type. NULL fits every type. A \<^verbatim>\<open>uuid\<close> column
  takes the text of a uuid; a \<^verbatim>\<open>string\<close> column is a \<^verbatim>\<open>varchar(255)\<close> and takes up
  to 255 characters, none of them NUL (the characters of the model are ASCII); a
  \<^verbatim>\<open>text\<close> column takes such characters without the bound; \<^verbatim>\<open>integer\<close> is a signed
  32-bit and \<^verbatim>\<open>bigInteger\<close> a signed 64-bit integer; a \<^verbatim>\<open>timestamp\<close> column takes an
  instant up to the end of the year 9999, which is well inside the range of the
  database. The model has no values for the other types, whose columns take NULL only:
  where the model and the database differ, the model refuses.
\<close>

definition sql_text :: "string \<Rightarrow> bool" where
  "sql_text s = list_all (\<lambda>c. 0 < (of_char c :: nat) \<and> (of_char c :: nat) < 128) s"

definition max_timestamp :: nat where
  "max_timestamp = 253402300799"

fun value_fits :: "column_type \<Rightarrow> sql_value \<Rightarrow> bool" where
  "value_fits ty Null = True"
| "value_fits Uuid (UuidValue u) = is_uuid_text u"
| "value_fits String (StringValue v) = (sql_text v \<and> length v \<le> 255)"
| "value_fits Text (StringValue v) = sql_text v"
| "value_fits Integer (IntValue i) = (- 2147483648 \<le> i \<and> i \<le> 2147483647)"
| "value_fits BigInteger (IntValue i) =
     (- 9223372036854775808 \<le> i \<and> i \<le> 9223372036854775807)"
| "value_fits Timestamp (TimestampValue t) = (t \<le> max_timestamp)"
| "value_fits ty v = False"

text \<open>
  A column that the row leaves out gets its default, or NULL when it has none; \<open>now\<close>
  is the clock of the database. A value that the row gives, NULL included, is stored as
  given.
\<close>

definition stored_value :: "nat \<Rightarrow> row \<Rightarrow> column \<Rightarrow> sql_value" where
  "stored_value now r c =
     (case map_of r (name c) of
        Some v \<Rightarrow> v
      | None \<Rightarrow>
          (case default_to c of
             None \<Rightarrow> Null
           | Some (DefaultInt i) \<Rightarrow> IntValue i
           | Some DefaultNow \<Rightarrow> TimestampValue now))"

definition type_ok :: "nat \<Rightarrow> row \<Rightarrow> column \<Rightarrow> bool" where
  "type_ok now r c = value_fits (ctype c) (stored_value now r c)"

definition not_null_ok :: "nat \<Rightarrow> row \<Rightarrow> column \<Rightarrow> bool" where
  "not_null_ok now r c = (is_nullable c \<or> stored_value now r c \<noteq> Null)"

text \<open>
  The rows that the tables of a database hold, by table name; a cell that a stored row
  does not mention is NULL.
\<close>

type_synonym table_rows = "(string \<times> row list) list"

definition rows_of :: "table_rows \<Rightarrow> string \<Rightarrow> row list" where
  "rows_of stored n = (case map_of stored n of None \<Rightarrow> [] | Some rs \<Rightarrow> rs)"

definition cell :: "row \<Rightarrow> string \<Rightarrow> sql_value" where
  "cell r c = (case map_of r c of None \<Rightarrow> Null | Some v \<Rightarrow> v)"

definition column_values :: "table_rows \<Rightarrow> string \<Rightarrow> string \<Rightarrow> sql_value list" where
  "column_values stored n c = map (\<lambda>r. canonical (cell r c)) (rows_of stored n)"

text \<open>
  A primary-key column is never NULL and holds no value twice: the value of the new row
  must not be in the table yet.
\<close>

definition unique_ok :: "nat \<Rightarrow> table_rows \<Rightarrow> string \<Rightarrow> row \<Rightarrow> column \<Rightarrow> bool" where
  "unique_ok now stored n r c =
     (\<not> is_primary c \<or>
      (stored_value now r c \<noteq> Null \<and>
       canonical (stored_value now r c) \<notin> set (column_values stored n (name c))))"

text \<open>
  A foreign key \<^verbatim>\<open>table.foreign(col).references('other.key')\<close>: a value of the column
  that is not NULL must be a value of the column \<^verbatim>\<open>key\<close> in a row of the table
  \<^verbatim>\<open>other\<close>.
\<close>

definition target_table :: "string \<Rightarrow> string" where
  "target_table target = takeWhile (\<lambda>c. c \<noteq> CHR ''.'') target"

definition target_column :: "string \<Rightarrow> string" where
  "target_column target = drop 1 (dropWhile (\<lambda>c. c \<noteq> CHR ''.'') target)"

definition foreign_ok ::
  "nat \<Rightarrow> table_rows \<Rightarrow> table_def \<Rightarrow> row \<Rightarrow> string \<times> string \<Rightarrow> bool" where
  "foreign_ok now stored t r fk =
     (case find_column (columns t) (fst fk) of
        None \<Rightarrow> False
      | Some c \<Rightarrow>
          stored_value now r c = Null \<or>
          canonical (stored_value now r c)
            \<in> set (column_values stored (target_table (snd fk)) (target_column (snd fk))))"

text \<open>
  The table takes the row when the row names no column twice and only columns of the
  table, every stored value fits the type of its column, no NOT NULL column ends up
  NULL, the primary key is new and every foreign key finds its row.
\<close>

definition accepts_row :: "nat \<Rightarrow> table_rows \<Rightarrow> string \<Rightarrow> table_def \<Rightarrow> row \<Rightarrow> bool" where
  "accepts_row now stored n t r =
     (distinct (map fst r) \<and>
      list_all (\<lambda>entry. fst entry \<in> set (column_names t)) r \<and>
      list_all (type_ok now r) (columns t) \<and>
      list_all (not_null_ok now r) (columns t) \<and>
      list_all (unique_ok now stored n r) (columns t) \<and>
      list_all (foreign_ok now stored t r) (foreigns t))"

definition storable :: "nat \<Rightarrow> schema \<Rightarrow> table_rows \<Rightarrow> string \<Rightarrow> row \<Rightarrow> bool" where
  "storable now s stored n r =
     (case table_of s n of None \<Rightarrow> False | Some t \<Rightarrow> accepts_row now stored n t r)"

definition stored_in :: "nat \<Rightarrow> schema \<Rightarrow> string \<Rightarrow> row \<Rightarrow> string \<Rightarrow> sql_value option" where
  "stored_in now s n r c = map_option (stored_value now r) (column_in s n c)"

section \<open>The payment-pointer detail route\<close>

text \<open>
  The route \<^verbatim>\<open>payment-pointers.$paymentPointerId.tsx\<close> exports a \<^verbatim>\<open>loader\<close> and an
  \<^verbatim>\<open>action\<close>. Both are asynchronous and call collaborators that live in other
  modules: \<^verbatim>\<open>getPaymentPointer\<close>, \<^verbatim>\<open>updatePaymentPointer\<close>,
  \<^verbatim>\<open>messageStorage.getSession\<close>, \<^verbatim>\<open>setMessageAndRedirect\<close>, and the validators
  \<^verbatim>\<open>z.string().uuid()\<close> and \<^verbatim>\<open>updatePaymentPointerSchema\<close>. The collaborators are
  parameters of the model. An awaited call either resolves with a value or rejects; a
  rejection leaves the function through the \<^verbatim>\<open>await\<close> as a thrown error. Every call
  of a collaborator is written to a log, in order, so that "is never called" is a
  statement about the log.
\<close>

datatype 'a awaited = Resolved 'a | Rejected string

record asset =
  asset_id :: string
  asset_code :: string
  asset_scale :: int
  withdrawalThreshold :: "string option"

record paymentPointer =
  pointer_id :: string
  url :: string
  publicName :: "string option"
  status :: string
  createdAt :: string
  asset :: asset

text \<open>
  \<^verbatim>\<open>json(body, init)\<close> builds a response; without a status the response is 200.
\<close>

record 'b response =
  body :: 'b
  http_status :: nat
  statusText :: "string option"

definition json :: "'b \<Rightarrow> nat \<Rightarrow> string option \<Rightarrow> 'b response" where
  "json b st txt = \<lparr>body = b, http_status = st, statusText = txt\<rparr>"

record message =
  content :: string
  message_type :: string

datatype loader_call = GetPaymentPointer string

datatype ('data, 'session) action_call =
    UpdatePaymentPointer 'data
  | GetSession "string option"
  | SetMessageAndRedirect 'session message string

text \<open>
  What a function of the route leaves with: a response it throws, an error thrown by a
  rejected collaborator, or a value it returns.
\<close>

datatype ('t, 'r) outcome = Throws 't | Fails string | Returns 'r

subsection \<open>The loader\<close>

text \<open>
  \<^verbatim>\<open>params.paymentPointerId\<close> is a string or undefined.
  \<^verbatim>\<open>z.string().uuid().safeParse\<close> succeeds on a string that the validator takes for a
  UUID (the parameter \<open>is_uuid\<close>) and then carries that string; it fails on undefined.
  \<^verbatim>\<open>toLocaleString\<close> stands for \<^verbatim>\<open>new Date(..).toLocaleString()\<close>, which depends
  on the locale of the server.
\<close>

definition safeParse_uuid :: "(string \<Rightarrow> bool) \<Rightarrow> string option \<Rightarrow> string option" where
  "safeParse_uuid is_uuid p =
     (case p of
        None \<Rightarrow> None
      | Some x \<Rightarrow> (if is_uuid x then Some x else None))"

definition loader ::
  "(string \<Rightarrow> bool) \<Rightarrow> (string \<Rightarrow> paymentPointer option awaited) \<Rightarrow> (string \<Rightarrow> string) \<Rightarrow>
   string option \<Rightarrow>
   (unit response, paymentPointer response) outcome \<times> loader_call list" where
  "loader is_uuid getPaymentPointer toLocaleString paymentPointerId =
     (case safeParse_uuid is_uuid paymentPointerId of
        None \<Rightarrow> (Throws (json () 400 (Some ''Invalid payment pointer ID.'')), [])
      | Some data \<Rightarrow>
          (case getPaymentPointer data of
             Rejected e \<Rightarrow> (Fails e, [GetPaymentPointer data])
           | Resolved None \<Rightarrow>
               (Throws (json () 404 (Some ''Payment pointer not found.'')),
                [GetPaymentPointer data])
           | Resolved (Some paymentPointer) \<Rightarrow>
               (Returns
                  (json (paymentPointer\<lparr>createdAt := toLocaleString (createdAt paymentPointer)\<rparr>)
                     200 None),
                [GetPaymentPointer data])))"

definition calls_getPaymentPointer :: "loader_call list \<Rightarrow> bool" where
  "calls_getPaymentPointer cs =
     list_ex (\<lambda>c. case c of GetPaymentPointer _ \<Rightarrow> True) cs"

subsection \<open>The action\<close>

text \<open>
  The form data is the list of its entries; \<^verbatim>\<open>Object.fromEntries\<close> makes an object
  of it in which the last entry of a key wins. \<^verbatim>\<open>updatePaymentPointerSchema.safeParse\<close>
  (the parameter \<open>safeParse\<close>) either fails, with the field errors that
  \<^verbatim>\<open>result.error.flatten().fieldErrors\<close> reads off the error, or succeeds with the
  parsed data. \<^verbatim>\<open>updatePaymentPointer\<close> resolves with a mutation response or with
  nothing; \<^verbatim>\<open>response?.success\<close> is falsy on nothing. The request is taken with
  its form data already read.
\<close>

type_synonym field_errors = "(string \<times> string list) list"

record action_errors =
  fieldErrors :: field_errors
  error_message :: "string list"

record mutation_response =
  success :: bool
  response_message :: "string option"

record request =
  cookie :: "string option"
  formData :: "(string \<times> string) list"

definition fromEntries :: "(string \<times> string) list \<Rightarrow> (string \<rightharpoonup> string)" where
  "fromEntries entries = map_of (rev entries)"

datatype 'r action_return =
    Json "action_errors response"
  | Redirect 'r

definition action ::
  "((string \<rightharpoonup> string) \<Rightarrow> field_errors + 'data) \<Rightarrow>
   ('data \<Rightarrow> mutation_response option awaited) \<Rightarrow>
   (string option \<Rightarrow> 'session awaited) \<Rightarrow>
   ('session \<Rightarrow> message \<Rightarrow> string \<Rightarrow> 'r awaited) \<Rightarrow>
   request \<Rightarrow>
   (unit, 'r action_return) outcome \<times> ('data, 'session) action_call list" where
  "action safeParse updatePaymentPointer getSession setMessageAndRedirect req =
     (let actionResponse = \<lparr>fieldErrors = [], error_message = []\<rparr>;
          formData = fromEntries (formData req)
      in case safeParse formData of
           Inl errs \<Rightarrow>
             (Returns (Json (json (actionResponse\<lparr>fieldErrors := errs\<rparr>) 400 None)), [])
         | Inr data \<Rightarrow>
             (case updatePaymentPointer data of
                Rejected e \<Rightarrow> (Fails e, [UpdatePaymentPointer data])
              | Resolved resp \<Rightarrow>
                  (if \<not> (case resp of None \<Rightarrow> False | Some r \<Rightarrow> success r) then
                     (Returns
                        (Json
                           (json
                              (actionResponse
                                 \<lparr>error_message :=
                                    [case Option.bind resp response_message of
                                       Some m \<Rightarrow> m
                                     | None \<Rightarrow>
                                         ''Could not update the payment pointer. Please try again!'']\<rparr>)
                              400 None)),
                      [UpdatePaymentPointer data])
                   else
                     (case getSession (cookie req) of
                        Rejected e \<Rightarrow> (Fails e, [UpdatePaymentPointer data, GetSession (cookie req)])
                      | Resolved session \<Rightarrow>
                          (let msg = \<lparr>content = ''Payment pointer was updated'',
                                      message_type = ''success''\<rparr>;
                               cs = [UpdatePaymentPointer data, GetSession (cookie req),
                                      SetMessageAndRedirect session msg ''.'']
                           in case setMessageAndRedirect session msg ''.'' of
                                Rejected e \<Rightarrow> (Fails e, cs)
                              | Resolved r \<Rightarrow> (Returns (Redirect r), cs))))))"

definition calls_updatePaymentPointer :: "('data, 'session) action_call list \<Rightarrow> bool" where
  "calls_updatePaymentPointer cs =
     list_ex (\<lambda>c. case c of UpdatePaymentPointer _ \<Rightarrow> True | _ \<Rightarrow> False) cs"

subsection \<open>Example inputs\<close>

text \<open>
  A row for a payment that has just been created: it names the identity, the state, the
  account and the asset, and leaves every other column out.
\<close>

definition pending_row :: "string \<Rightarrow> string \<Rightarrow> string \<Rightarrow> string \<Rightarrow> row" where
  "pending_row i st a b =
     [(''id'', UuidValue i), (''state'', StringValue st),
      (''accountId'', UuidValue a), (''assetId'', UuidValue b)]"

text \<open>
  The migration refers to the tables \<^verbatim>\<open>accounts\<close> and \<^verbatim>\<open>assets\<close>, which earlier
  migrations create and which are not among the source files. The schema below stands
  for a database on which the migration runs: of the two tables it has what the
  migration refers to, the primary key \<^verbatim>\<open>id\<close>. With it come one account and one asset.
\<close>

definition referenced_callback :: "(table_def \<Rightarrow> table_def) list" where
  "referenced_callback = [add_column (primary (notNullable (uuid ''id'')))]"

definition base_schema :: schema where
  "base_schema =
     [(''accounts'', run_statements referenced_callback empty_table),
      (''assets'', run_statements referenced_callback empty_table)]"

definition migrated_schema :: schema where
  "migrated_schema = base_schema @ [(''outgoingPayments'', outgoingPayments)]"

definition base_rows :: table_rows where
  "base_rows =
     [(''accounts'', [[(''id'', UuidValue ''5b0c2d4e-7a1f-4e3b-9c6d-2f8a1b3c4d5e'')]]),
      (''assets'', [[(''id'', UuidValue ''0e9f8d7c-6b5a-4c3d-8e2f-1a0b9c8d7e6f'')]])]"

text \<open>Collaborators and requests on which the loader and the action are run below.\<close>

definition example_pointer :: paymentPointer where
  "example_pointer =
     \<lparr>pointer_id = ''8c2f1f4e-5e0a-4c58-8f3e-0c1d2e3f4a5b'',
      url = ''https://wallet.example/alice'',
      publicName = Some ''Alice'', status = ''ACTIVE'',
      createdAt = ''2023-05-01T10:00:00.000Z'',
      asset = \<lparr>asset_id = ''a1'', asset_code = ''USD'', asset_scale = 2,
               withdrawalThreshold = None\<rparr>\<rparr>"

definition example_is_uuid :: "string \<Rightarrow> bool" where
  "example_is_uuid x = (length x = 36)"

definition example_getPaymentPointer :: "string \<Rightarrow> paymentPointer option awaited" where
  "example_getPaymentPointer x =
     (if x = pointer_id example_pointer then Resolved (Some example_pointer)
      else Resolved None)"

definition example_toLocaleString :: "string \<Rightarrow> string" where
  "example_toLocaleString x = ''5/1/2023, 10:00:00 AM''"

definition example_safeParse :: "(string \<rightharpoonup> string) \<Rightarrow> field_errors + string \<times> string" where
  "example_safeParse form =
     (case form ''id'' of
        None \<Rightarrow> Inl [(''id'', [''Required''])]
      | Some i \<Rightarrow>
          (case form ''status'' of
             None \<Rightarrow> Inl [(''status'', [''Required''])]
           | Some st \<Rightarrow>
               (if st = ''ACTIVE'' \<or> st = ''INACTIVE'' then Inr (i, st)
                else Inl [(''status'', [''Invalid enum value''])])))"

definition example_updatePaymentPointer :: "string \<times> string \<Rightarrow> mutation_response option awaited" where
  "example_updatePaymentPointer d = Resolved (Some \<lparr>success = True, response_message = None\<rparr>)"

definition example_getSession :: "string option \<Rightarrow> string awaited" where
  "example_getSession c = Resolved ''session''"

definition example_setMessageAndRedirect :: "string \<Rightarrow> message \<Rightarrow> string \<Rightarrow> string awaited" where
  "example_setMessageAndRedirect session m location = Resolved location"

definition invalid_request :: request where
  "invalid_request = \<lparr>cookie = None, formData = [(''id'', ''p1''), (''status'', ''DELETED'')]\<rparr>"

definition valid_request :: request where
  "valid_request =
     \<lparr>cookie = Some ''c'',
      formData = [(''id'', ''p1''), (''status'', ''DELETED''), (''status'', ''ACTIVE'')]\<rparr>"

section \<open>The quote engine and the payment lifecycle of the specification\<close>

text \<open>
  The source files hold the persisted shape of a payment and the administrative route;
  the quote engine and the lifecycle state machine that the specification describes in
  its sections 3, 4.1 and 4.2 are not among them. Every definition of this section is
  written from the specification's words and says so.
\<close>

subsection \<open>Money and rates\<close>

text \<open>
  Modelled from the spec: the Amount type of section 3, which is missing from the source
  files: an unsigned value with the code and the scale of its asset.
\<close>

record amount =
  amount_value :: nat
  assetCode :: string
  assetScale :: int

text \<open>
  Modelled from the spec: the Rate type of section 3, which is missing from the source
  files. A rate is an exact rational, numerator over denominator, in destination units
  per source unit.
\<close>

record rate =
  numerator :: int
  denominator :: int

text \<open>
  Modelled from the spec: the constraint of section 3 that the denominator of a Rate is
  positive (the Rate type is missing from the source files).
\<close>

definition valid_rate :: "rate \<Rightarrow> bool" where
  "valid_rate r = (0 < denominator r)"

text \<open>
  Modelled from the spec: the comparison of two Rates by cross-multiplication (section
  3), which is missing from the source files.
\<close>

definition rate_le :: "rate \<Rightarrow> rate \<Rightarrow> bool" where
  "rate_le a b = (numerator a * denominator b \<le> numerator b * denominator a)"

text \<open>
  Modelled from the spec: the rational number that a Rate of section 3 stands for (the
  Rate type is missing from the source files).
\<close>

definition rate_value :: "rate \<Rightarrow> rat" where
  "rate_value r = of_int (numerator r) / of_int (denominator r)"

text \<open>
  Modelled from the spec: the target types of a quote (section 3), which are missing
  from the source files but for the comment on the column \<^verbatim>\<open>quoteTargetType\<close>.
\<close>

datatype target_type = FixedSend | FixedDelivery

text \<open>
  Modelled from the spec: the Quote type of section 3, which is missing from the source
  files.
\<close>

record quote =
  quote_createdAt :: nat
  targetType :: target_type
  maxPacketAmount :: nat
  minExchangeRate :: rate
  estimatedRateLow :: rate
  estimatedRateHigh :: rate

text \<open>
  Modelled from the spec: the QuoteError taxonomy of section 7, which is missing from
  the source files.
\<close>

datatype quote_error = InvalidRateBounds | ZeroRate | PacketTooSmall | AmountTooSmall

subsection \<open>The quote engine\<close>

text \<open>
  Modelled from the spec: the derivation of the guaranteed rate in section 4.1, which is
  missing from the source files. The slippage tolerance is a configured fraction; the
  guaranteed rate is the probed low rate less that fraction of it, as an exact rational
  (in the specification's example, \<open>0.90\<close> less \<open>1%\<close> is \<open>0.891\<close>).
\<close>

definition apply_slippage :: "rate \<Rightarrow> rate \<Rightarrow> rate" where
  "apply_slippage slippage probedRateLow =
     \<lparr>numerator = numerator probedRateLow * (denominator slippage - numerator slippage),
      denominator = denominator probedRateLow * denominator slippage\<rparr>"

text \<open>
  Modelled from the spec: the rounding of a fixed-send quote in section 4.1, which is
  missing from the source files, in integer arithmetic on numerator and denominator,
  since a rate is never collapsed to floating point.
\<close>

definition floor_mul :: "nat \<Rightarrow> rate \<Rightarrow> int" where
  "floor_mul a r = (int a * numerator r) div denominator r"

text \<open>
  Modelled from the spec: the rounding of a fixed-delivery quote in section 4.1, which
  is missing from the source files, in integer arithmetic as well.
\<close>

definition ceil_div :: "nat \<Rightarrow> rate \<Rightarrow> int" where
  "ceil_div a r = - ((- (int a * denominator r)) div numerator r)"

text \<open>
  Modelled from the spec: what the quote engine of section 4.1 (missing from the source
  files) hands back: the quote and the two amounts, of which one was the target and the
  other is the computed counterpart.
\<close>

record quote_result =
  result_quote :: quote
  result_sendAmount :: nat
  result_receiveAmount :: nat

text \<open>
  Modelled from the spec: the contract \<open>Quote\<close> of section 4.1, which is missing from
  the source files. It fails with \<open>InvalidRateBounds\<close> if the probed low rate exceeds
  the high one, with \<open>ZeroRate\<close> if the low rate is not positive, with
  \<open>PacketTooSmall\<close> if the packet ceiling is below one unit and with
  \<open>AmountTooSmall\<close> if the computed counterpart amount rounds to 0. Otherwise a
  fixed-send target receives \<open>floor(sendAmount * minExchangeRate)\<close> and a
  fixed-delivery target sends \<open>ceil(deliveryAmount / minExchangeRate)\<close>.
\<close>

definition compute_quote ::
  "rate \<Rightarrow> nat \<Rightarrow> target_type \<Rightarrow> nat \<Rightarrow> rate \<Rightarrow> rate \<Rightarrow> nat \<Rightarrow> quote_error + quote_result" where
  "compute_quote slippage now ttype target_amount probedRateLow probedRateHigh maxPacket =
     (if \<not> rate_le probedRateLow probedRateHigh then Inl InvalidRateBounds
      else if numerator probedRateLow \<le> 0 then Inl ZeroRate
      else if maxPacket < 1 then Inl PacketTooSmall
      else
        let minRate = apply_slippage slippage probedRateLow;
            q = \<lparr>quote_createdAt = now, targetType = ttype, maxPacketAmount = maxPacket,
                 minExchangeRate = minRate, estimatedRateLow = probedRateLow,
                 estimatedRateHigh = probedRateHigh\<rparr>;
            counterpart = (case ttype of
                             FixedSend \<Rightarrow> floor_mul target_amount minRate
                           | FixedDelivery \<Rightarrow> ceil_div target_amount minRate)
        in if counterpart \<le> 0 then Inl AmountTooSmall
           else (case ttype of
                   FixedSend \<Rightarrow>
                     Inr \<lparr>result_quote = q, result_sendAmount = target_amount,
                          result_receiveAmount = nat counterpart\<rparr>
                 | FixedDelivery \<Rightarrow>
                     Inr \<lparr>result_quote = q, result_sendAmount = nat counterpart,
                          result_receiveAmount = target_amount\<rparr>))"

text \<open>
  Modelled from the spec: the probed low rate of the example in section 8 (\<open>0.90\<close>),
  an input of the quote engine that is missing from the source files.
\<close>

definition usd_eur_low :: rate where
  "usd_eur_low = \<lparr>numerator = 90, denominator = 100\<rparr>"

text \<open>
  Modelled from the spec: the probed high rate of the example in section 8 (\<open>0.92\<close>),
  an input of the quote engine that is missing from the source files.
\<close>

definition usd_eur_high :: rate where
  "usd_eur_high = \<lparr>numerator = 92, denominator = 100\<rparr>"

text \<open>
  Modelled from the spec: the slippage tolerance of the example in section 8 (\<open>1%\<close>),
  a configuration of the quote engine that is missing from the source files.
\<close>

definition one_percent :: rate where
  "one_percent = \<lparr>numerator = 1, denominator = 100\<rparr>"

subsection \<open>The payment lifecycle\<close>

text \<open>
  Modelled from the spec: the six states of section 4.2. The enumeration that the
  comment on the column \<^verbatim>\<open>state\<close> refers to is missing from the source files.
\<close>

datatype payment_state = Pending | Quoted | Sending | Completed | Failed | Cancelled

text \<open>
  Modelled from the spec: the aggregate OutgoingPayment of section 3, which is missing
  from the source files (they hold its persisted shape only).
\<close>

record outgoing_payment =
  payment_id :: string
  state :: payment_state
  error :: "string option"
  stateAttempts :: nat
  description :: "string option"
  externalRef :: "string option"
  sourceAccountId :: string
  assetId :: string
  receivingPaymentPointer :: string
  sendAmount :: "amount option"
  receiveAmount :: "amount option"
  payment_quote :: "quote option"
  payment_createdAt :: nat
  updatedAt :: nat

text \<open>
  Modelled from the spec: the LifecycleError taxonomy of section 7, which is missing
  from the source files.
\<close>

datatype lifecycle_error = AlreadyTerminal | TooLate | Conflict

text \<open>
  Modelled from the spec: the outcomes that drive \<open>advance\<close>, one for each event of
  the transition table of section 4.2 but the request to cancel, which has an operation
  of its own. They are missing from the source files.
\<close>

datatype advance_outcome =
    QuoteSucceeded quote
  | QuoteFailed string
  | BeginTransmission
  | FullyDelivered
  | TransientFailure string
  | FatalFailure string

text \<open>
  Modelled from the spec: the terminal states of section 4.2, which are missing from
  the source files.
\<close>

definition terminal :: "payment_state \<Rightarrow> bool" where
  "terminal st = (st = Completed \<or> st = Failed \<or> st = Cancelled)"

text \<open>
  Modelled from the spec: the operation \<open>advance\<close> with the transition table of
  section 4.2, which is missing from the source files. It answers with the payment
  after the event and the error it reports, if any. In a terminal state every event is
  a no-op reported as \<open>AlreadyTerminal\<close>. The table has no row for the other pairs of
  a state and an outcome that are not listed (a delivery report for a payment that is
  not sending, for instance); for these the answer is \<open>None\<close>.
\<close>

fun advance ::
  "nat \<Rightarrow> outgoing_payment \<Rightarrow> advance_outcome \<Rightarrow>
   (outgoing_payment \<times> lifecycle_error option) option" where
  "advance maxAttempts p ev =
     (if terminal (state p) then Some (p, Some AlreadyTerminal)
      else case (state p, ev) of
        (Pending, QuoteSucceeded q) \<Rightarrow>
          Some (p\<lparr>state := Quoted, payment_quote := Some q, stateAttempts := 0, error := None\<rparr>,
                None)
      | (Pending, QuoteFailed e) \<Rightarrow>
          Some (p\<lparr>state := Failed, stateAttempts := 0, error := Some e\<rparr>, None)
      | (Quoted, BeginTransmission) \<Rightarrow>
          Some (p\<lparr>state := Sending, stateAttempts := 0\<rparr>, None)
      | (Sending, FullyDelivered) \<Rightarrow>
          Some (p\<lparr>state := Completed, stateAttempts := 0, error := None\<rparr>, None)
      | (Sending, TransientFailure e) \<Rightarrow>
          (if Suc (stateAttempts p) \<ge> maxAttempts
           then Some (p\<lparr>state := Failed, stateAttempts := 0, error := Some e\<rparr>, None)
           else Some (p\<lparr>stateAttempts := Suc (stateAttempts p), error := Some e\<rparr>, None))
      | (Sending, FatalFailure e) \<Rightarrow>
          Some (p\<lparr>state := Failed, stateAttempts := 0, error := Some e\<rparr>, None)
      | _ \<Rightarrow> None)"

text \<open>
  Modelled from the spec: a sequence of \<open>advance\<close> calls on one payment (the operation
  is missing from the source files), each on the payment that the call before it left,
  with the list of what the calls reported.
\<close>

fun advance_all ::
  "nat \<Rightarrow> outgoing_payment \<Rightarrow> advance_outcome list \<Rightarrow>
   (outgoing_payment \<times> lifecycle_error option list) option" where
  "advance_all maxAttempts p [] = Some (p, [])"
| "advance_all maxAttempts p (ev # evs) =
     (case advance maxAttempts p ev of
        None \<Rightarrow> None
      | Some (p', r) \<Rightarrow>
          (case advance_all maxAttempts p' evs of
             None \<Rightarrow> None
           | Some (p'', rs) \<Rightarrow> Some (p'', r # rs)))"

text \<open>
  Modelled from the spec: the operation \<open>cancel\<close> of section 4.2, which is missing from
  the source files: permitted before sending begins, \<open>TooLate\<close> afterwards.
\<close>

definition cancel :: "outgoing_payment \<Rightarrow> lifecycle_error + outgoing_payment" where
  "cancel p =
     (if state p = Pending \<or> state p = Quoted
      then Inr (p\<lparr>state := Cancelled, stateAttempts := 0\<rparr>)
      else Inl TooLate)"

text \<open>
  Modelled from the spec: a payment as \<open>create\<close> of section 4.2 (missing from the
  source files) persists it, in \<open>Pending\<close> with a fixed send amount, and the quote of
  the example of section 8 for it.
\<close>

definition example_payment :: outgoing_payment where
  "example_payment =
     \<lparr>payment_id = ''p1'', state = Pending, error = None, stateAttempts = 0,
      description = None, externalRef = None, sourceAccountId = ''acc1'',
      assetId = ''usd'', receivingPaymentPointer = ''$wallet.example/bob'',
      sendAmount = Some \<lparr>amount_value = 10000, assetCode = ''USD'', assetScale = 2\<rparr>,
      receiveAmount = None, payment_quote = None, payment_createdAt = 0, updatedAt = 0\<rparr>"

text \<open>
  Modelled from the spec: the quote of the example of section 8, as the quote engine
  (missing from the source files) computes it.
\<close>

definition example_quote :: quote where
  "example_quote =
     \<lparr>quote_createdAt = 0, targetType = FixedSend, maxPacketAmount = 1000,
      minExchangeRate = apply_slippage one_percent usd_eur_low,
      estimatedRateLow = usd_eur_low, estimatedRateHigh = usd_eur_high\<rparr>"

text \<open>
  Modelled from the spec: the example payment after its quote, the start of its
  transmission and its full delivery, in the terminal state \<open>Completed\<close> of section
  4.2 (the state machine is missing from the source files).
\<close>

definition completed_payment :: outgoing_payment where
  "completed_payment =
     example_payment\<lparr>state := Completed, payment_quote := Some example_quote\<rparr>"

section \<open>The table that the migration builds\<close>

lemmas builder_defs =
  outgoingPayments_callback_def empty_table_def add_column_def foreign_references_def
  add_index_def new_column_def uuid_def string_def integer_def bigInteger_def
  timestamp_def notNullable_def nullable_def primary_def index_def defaultTo_def

lemma up_result:
  "up s = Inr s' \<Longrightarrow>
   s' = s @ [(''outgoingPayments'', outgoingPayments)] \<and> map_of s ''outgoingPayments'' = None"
  by (auto simp: up_def createTable_def outgoingPayments_def split: option.splits)

lemma table_of_up:
  assumes "up s = Inr s'"
  shows "table_of s' ''outgoingPayments'' = Some outgoingPayments"
  using up_result [OF assms] by (simp add: table_of_def map_add_def)

lemma up_base: "up base_schema = Inr migrated_schema"
  by (simp add: up_def createTable_def outgoingPayments_def base_schema_def
      migrated_schema_def)

lemma table_of_migrated:
  "table_of migrated_schema ''outgoingPayments'' = Some outgoingPayments"
  by (rule table_of_up [OF up_base])

lemma columns_outgoingPayments:
  "columns outgoingPayments =
    [\<lparr>name = ''id'', ctype = Uuid, is_nullable = False, default_to = None,
      is_primary = True, is_indexed = False\<rparr>,
     \<lparr>name = ''state'', ctype = String, is_nullable = False, default_to = None,
      is_primary = False, is_indexed = True\<rparr>,
     \<lparr>name = ''error'', ctype = String, is_nullable = True, default_to = None,
      is_primary = False, is_indexed = False\<rparr>,
     \<lparr>name = ''stateAttempts'', ctype = Integer, is_nullable = False,
      default_to = Some (DefaultInt 0), is_primary = False, is_indexed = False\<rparr>,
     \<lparr>name = ''description'', ctype = String, is_nullable = True, default_to = None,
      is_primary = False, is_indexed = False\<rparr>,
     \<lparr>name = ''externalRef'', ctype = String, is_nullable = True, default_to = None,
      is_primary = False, is_indexed = False\<rparr>,
     \<lparr>name = ''receivingAccount'', ctype = String, is_nullable = True, default_to = None,
      is_primary = False, is_indexed = False\<rparr>,
     \<lparr>name = ''receivingPayment'', ctype = String, is_nullable = True, default_to = None,
      is_primary = False, is_indexed = False\<rparr>,
     \<lparr>name = ''sendAmountValue'', ctype = BigInteger, is_nullable = True, default_to = None,
      is_primary = False, is_indexed = False\<rparr>,
     \<lparr>name = ''receiveAmountValue'', ctype = BigInteger, is_nullable = True,
      default_to = None, is_primary = False, is_indexed = False\<rparr>,
     \<lparr>name = ''receiveAmountAssetCode'', ctype = String, is_nullable = True,
      default_to = None, is_primary = False, is_indexed = False\<rparr>,
     \<lparr>name = ''receiveAmountAssetScale'', ctype = Integer, is_nullable = True,
      default_to = None, is_primary = False, is_indexed = False\<rparr>,
     \<lparr>name = ''quoteTimestamp'', ctype = Timestamp, is_nullable = True, default_to = None,
      is_primary = False, is_indexed = False\<rparr>,
     \<lparr>name = ''quoteTargetType'', ctype = String, is_nullable = True, default_to = None,
      is_primary = False, is_indexed = False\<rparr>,
     \<lparr>name = ''quoteMaxPacketAmount'', ctype = BigInteger, is_nullable = True,
      default_to = None, is_primary = False, is_indexed = False\<rparr>,
     \<lparr>name = ''quoteMinExchangeRateNumerator'', ctype = BigInteger, is_nullable = True,
      default_to = None, is_primary = False, is_indexed = False\<rparr>,
     \<lparr>name = ''quoteMinExchangeRateDenominator'', ctype = BigInteger, is_nullable = True,
      default_to = None, is_primary = False, is_indexed = False\<rparr>,
     \<lparr>name = ''quoteLowExchangeRateEstimateNumerator'', ctype = BigInteger,
      is_nullable = True, default_to = None, is_primary = False, is_indexed = False\<rparr>,
     \<lparr>name = ''quoteLowExchangeRateEstimateDenominator'', ctype = BigInteger,
      is_nullable = True, default_to = None, is_primary = False, is_indexed = False\<rparr>,
     \<lparr>name = ''quoteHighExchangeRateEstimateNumerator'', ctype = BigInteger,
      is_nullable = True, default_to = None, is_primary = False, is_indexed = False\<rparr>,
     \<lparr>name = ''quoteHighExchangeRateEstimateDenominator'', ctype = BigInteger,
      is_nullable = True, default_to = None, is_primary = False, is_indexed = False\<rparr>,
     \<lparr>name = ''accountId'', ctype = Uuid, is_nullable = False, default_to = None,
      is_primary = False, is_indexed = False\<rparr>,
     \<lparr>name = ''assetId'', ctype = Uuid, is_nullable = False, default_to = None,
      is_primary = False, is_indexed = False\<rparr>,
     \<lparr>name = ''createdAt'', ctype = Timestamp, is_nullable = True,
      default_to = Some DefaultNow, is_primary = False, is_indexed = False\<rparr>,
     \<lparr>name = ''updatedAt'', ctype = Timestamp, is_nullable = True,
      default_to = Some DefaultNow, is_primary = False, is_indexed = False\<rparr>]"
  by (simp add: outgoingPayments_def builder_defs)

lemma foreigns_outgoingPayments:
  "foreigns outgoingPayments = [(''accountId'', ''accounts.id''), (''assetId'', ''assets.id'')]"
  by (simp add: outgoingPayments_def builder_defs)

lemma table_indexes_outgoingPayments:
  "table_indexes outgoingPayments = [[''accountId'', ''createdAt'', ''id'']]"
  by (simp add: outgoingPayments_def builder_defs)

lemma indexes_outgoingPayments:
  "indexes outgoingPayments = [[''state''], [''accountId'', ''createdAt'', ''id'']]"
  by (simp add: indexes_def columns_outgoingPayments table_indexes_outgoingPayments)

lemma column_in_up:
  "up s = Inr s' \<Longrightarrow>
   column_in s' ''outgoingPayments'' c = find_column (columns outgoingPayments) c"
  by (simp add: column_in_def table_of_up get_column_def)

lemma filter_absent: "map_of s n = None \<Longrightarrow> filter (\<lambda>entry. fst entry \<noteq> n) s = s"
  by (induction s) (auto split: if_splits)

lemma map_of_filter_other:
  "m \<noteq> n \<Longrightarrow> map_of (filter (\<lambda>entry. fst entry \<noteq> n) s) m = map_of s m"
  by (induction s) auto

lemma map_of_filter_same: "map_of (filter (\<lambda>entry. fst entry \<noteq> n) s) n = None"
  by (induction s) auto

section \<open>The indexes (C1)\<close>

text \<open>
  Claim C1, as the specification words it, asks for a composite index over
  \<open>(sourceAccountId, createdAt, id)\<close>. The table that the migration creates on a
  schema with accounts and assets has no column \<^verbatim>\<open>sourceAccountId\<close> and no index over
  that triple.
\<close>

theorem no_sourceAccountId_index:
  "up base_schema = Inr migrated_schema
   \<and> \<not> has_index migrated_schema ''outgoingPayments''
         [''sourceAccountId'', ''createdAt'', ''id'']
   \<and> \<not> has_column migrated_schema ''outgoingPayments''
         ''sourceAccountId''"
  by (simp add: up_base has_index_def has_column_def table_of_migrated indexes_outgoingPayments
      column_names_def columns_outgoingPayments)

text \<open>
  Claim C1, amended: in every schema that a run of \<^verbatim>\<open>up\<close> produces, the table
  \<^verbatim>\<open>outgoingPayments\<close> has an index on \<^verbatim>\<open>state\<close> and a composite index on
  \<^verbatim>\<open>(accountId, createdAt, id)\<close>, in this order; \<^verbatim>\<open>accountId\<close> is the column of the
  account that owns the payment.
\<close>

theorem up_creates_indexes:
  assumes "up s = Inr s'"
  shows "has_index s' ''outgoingPayments'' [''state'']
         \<and> has_index s' ''outgoingPayments'' [''accountId'', ''createdAt'', ''id'']"
proof -
  from assms have built: "table_of s' ''outgoingPayments'' = Some outgoingPayments"
    by (rule table_of_up)
  have "[''state''] \<in> set (indexes outgoingPayments)"
    by (simp add: indexes_outgoingPayments)
  moreover have "[''accountId'', ''createdAt'', ''id''] \<in> set (indexes outgoingPayments)"
    by (simp add: indexes_outgoingPayments)
  ultimately show ?thesis
    by (simp add: has_index_def built)
qed

theorem up_creates_indexes_witness:
  "up base_schema = Inr migrated_schema
   \<and> has_index migrated_schema ''outgoingPayments'' [''state'']
   \<and> has_index migrated_schema ''outgoingPayments''
       [''accountId'', ''createdAt'', ''id'']"
  using up_creates_indexes [OF up_base] up_base by simp

section \<open>Exchange rates as integer pairs (C2)\<close>

text \<open>
  Claim C2: in every schema that a run of \<^verbatim>\<open>up\<close> produces, each of the three
  persisted exchange rates (the minimum rate, the low estimate, the high estimate) is a
  pair of a numerator column and a denominator column of the integer type
  \<^verbatim>\<open>bigInteger\<close>, and the table has no floating-point column at all.
\<close>

theorem rates_stored_as_integer_pairs:
  "up s = Inr s' \<Longrightarrow>
   map (type_in s' ''outgoingPayments'')
     [''quoteMinExchangeRateNumerator'', ''quoteMinExchangeRateDenominator'',
      ''quoteLowExchangeRateEstimateNumerator'', ''quoteLowExchangeRateEstimateDenominator'',
      ''quoteHighExchangeRateEstimateNumerator'', ''quoteHighExchangeRateEstimateDenominator'']
     = [Some BigInteger, Some BigInteger, Some BigInteger,
        Some BigInteger, Some BigInteger, Some BigInteger]
   \<and> is_integer_type BigInteger
   \<and> floating_point_columns s' ''outgoingPayments'' = []"
  by (simp add: type_in_def column_in_up floating_point_columns_def table_of_up
      columns_outgoingPayments)

theorem rates_stored_as_integer_pairs_witness:
  "up base_schema = Inr migrated_schema
   \<and> type_in migrated_schema ''outgoingPayments''
       ''quoteMinExchangeRateNumerator'' = Some BigInteger
   \<and> type_in migrated_schema ''outgoingPayments''
       ''quoteMinExchangeRateDenominator'' = Some BigInteger
   \<and> floating_point_columns migrated_schema ''outgoingPayments'' = []"
  using rates_stored_as_integer_pairs [OF up_base] up_base by simp

section \<open>The two amounts (C3)\<close>

text \<open>
  Claim C3, as the specification words it, asks for a value, an asset code and an asset
  scale of the send amount as well. The table that the migration creates on a schema
  with accounts and assets has neither a column \<^verbatim>\<open>sendAmountAssetCode\<close> nor a column
  \<^verbatim>\<open>sendAmountAssetScale\<close>.
\<close>

theorem sendAmount_has_no_asset_columns:
  "up base_schema = Inr migrated_schema
   \<and> \<not> has_column migrated_schema ''outgoingPayments''
         ''sendAmountAssetCode''
   \<and> \<not> has_column migrated_schema ''outgoingPayments''
         ''sendAmountAssetScale''"
  by (simp add: up_base has_column_def table_of_migrated column_names_def
      columns_outgoingPayments)

text \<open>
  Claim C3, amended: the persisted record stores the receive amount as a full Amount
  (\<^verbatim>\<open>receiveAmountValue\<close>, \<^verbatim>\<open>receiveAmountAssetCode\<close>,
  \<^verbatim>\<open>receiveAmountAssetScale\<close>); of the send amount it stores the value only
  (\<^verbatim>\<open>sendAmountValue\<close> is its one column), and the asset of the send amount is the row
  of \<^verbatim>\<open>assets\<close> that the non-nullable \<^verbatim>\<open>assetId\<close> refers to.
\<close>

theorem amounts_persisted:
  "up s = Inr s' \<Longrightarrow>
   map (type_in s' ''outgoingPayments'')
     [''receiveAmountValue'', ''receiveAmountAssetCode'', ''receiveAmountAssetScale'',
      ''sendAmountValue'']
     = [Some BigInteger, Some String, Some Integer, Some BigInteger]
   \<and> columns_with_prefix s' ''outgoingPayments'' ''sendAmount'' = [''sendAmountValue'']
   \<and> has_foreign s' ''outgoingPayments'' ''assetId'' ''assets.id''
   \<and> nullable_in s' ''outgoingPayments'' ''assetId'' = Some False"
  by (simp add: type_in_def nullable_in_def column_in_up columns_with_prefix_def
      has_foreign_def table_of_up column_names_def columns_outgoingPayments
      foreigns_outgoingPayments)

theorem amounts_persisted_witness:
  "up base_schema = Inr migrated_schema
   \<and> columns_with_prefix migrated_schema ''outgoingPayments''
       ''sendAmount'' = [''sendAmountValue'']
   \<and> has_foreign migrated_schema ''outgoingPayments''
       ''assetId'' ''assets.id''
   \<and> type_in migrated_schema ''outgoingPayments''
       ''receiveAmountAssetCode'' = Some String"
  using amounts_persisted [OF up_base] up_base by simp

section \<open>The destination reference (C4)\<close>

text \<open>
  Claim C4, as the specification words it, names a field \<^verbatim>\<open>receivingPaymentPointer\<close>.
  The table that the migration creates on a schema with accounts and assets has no
  column of that name.
\<close>

theorem no_receivingPaymentPointer_column:
  "up base_schema = Inr migrated_schema
   \<and> \<not> has_column migrated_schema ''outgoingPayments''
         ''receivingPaymentPointer''"
  by (simp add: up_base has_column_def table_of_migrated column_names_def
      columns_outgoingPayments)

text \<open>
  Claim C4, amended: the persisted outgoing-payment record contains the
  destination-reference string fields named \<^verbatim>\<open>receivingAccount\<close> and
  \<^verbatim>\<open>receivingPayment\<close>, and no other field whose name starts with \<^verbatim>\<open>receiving\<close>.
\<close>

theorem destination_reference_columns:
  "up s = Inr s' \<Longrightarrow>
   map (type_in s' ''outgoingPayments'') [''receivingAccount'', ''receivingPayment'']
     = [Some String, Some String]
   \<and> columns_with_prefix s' ''outgoingPayments'' ''receiving''
     = [''receivingAccount'', ''receivingPayment'']"
  by (simp add: type_in_def column_in_up columns_with_prefix_def table_of_up
      column_names_def columns_outgoingPayments)

theorem destination_reference_columns_witness:
  "up base_schema = Inr migrated_schema
   \<and> type_in migrated_schema ''outgoingPayments''
       ''receivingAccount'' = Some String
   \<and> type_in migrated_schema ''outgoingPayments''
       ''receivingPayment'' = Some String
   \<and> columns_with_prefix migrated_schema ''outgoingPayments''
       ''receiving'' = [''receivingAccount'', ''receivingPayment'']"
  using destination_reference_columns [OF up_base] up_base by simp

section \<open>A payment before its quote (C5)\<close>

lemma pending_row_types:
  assumes "is_uuid_text i" "is_uuid_text a" "is_uuid_text b"
    and "sql_text st" "length st \<le> 255" "now \<le> max_timestamp"
  shows "list_all (type_ok now (pending_row i st a b)) (columns outgoingPayments)"
  using assms
  by (simp add: type_ok_def stored_value_def pending_row_def columns_outgoingPayments)

lemma pending_row_not_null:
  "list_all (not_null_ok now (pending_row i st a b)) (columns outgoingPayments)"
  by (simp add: not_null_ok_def stored_value_def pending_row_def columns_outgoingPayments)

lemma pending_row_unique:
  assumes "canonical (UuidValue i) \<notin> set (column_values stored ''outgoingPayments'' ''id'')"
  shows "list_all (unique_ok now stored ''outgoingPayments'' (pending_row i st a b))
           (columns outgoingPayments)"
  using assms
  by (simp add: unique_ok_def stored_value_def pending_row_def columns_outgoingPayments)

lemma pending_row_foreign:
  assumes "canonical (UuidValue a) \<in> set (column_values stored ''accounts'' ''id'')"
    and "canonical (UuidValue b) \<in> set (column_values stored ''assets'' ''id'')"
  shows "list_all (foreign_ok now stored outgoingPayments (pending_row i st a b))
           (foreigns outgoingPayments)"
  using assms
  by (simp add: foreign_ok_def stored_value_def pending_row_def columns_outgoingPayments
      foreigns_outgoingPayments target_table_def target_column_def)

lemma pending_row_names:
  "distinct (map fst (pending_row i st a b))
   \<and> list_all (\<lambda>entry. fst entry \<in> set (column_names outgoingPayments))
       (pending_row i st a b)"
  by (simp add: pending_row_def column_names_def columns_outgoingPayments)

text \<open>
  The checks refuse what the table refuses: a row whose account and asset are not
  uuids, a row whose account is not in the table of accounts, and a second row with the
  identity of a stored one.
\<close>

lemma ill_typed_row_refused:
  "\<not> storable 1698315945 migrated_schema base_rows ''outgoingPayments''
       (pending_row ''8c2f1f4e-5e0a-4c58-8f3e-0c1d2e3f4a5b'' ''Pending'' ''acc1'' ''usd'')"
  by (simp add: storable_def table_of_migrated accepts_row_def type_ok_def
      stored_value_def pending_row_def columns_outgoingPayments is_uuid_text_def
      is_hex_def)

lemma unknown_account_refused:
  "\<not> storable 1698315945 migrated_schema base_rows ''outgoingPayments''
       (pending_row ''8c2f1f4e-5e0a-4c58-8f3e-0c1d2e3f4a5b'' ''Pending''
          ''11111111-2222-4333-8444-555555555555''
          ''0e9f8d7c-6b5a-4c3d-8e2f-1a0b9c8d7e6f'')"
  by (simp add: storable_def table_of_migrated accepts_row_def foreign_ok_def
      stored_value_def pending_row_def columns_outgoingPayments foreigns_outgoingPayments
      target_table_def target_column_def column_values_def rows_of_def cell_def
      base_rows_def lower_hex_def)

lemma used_identity_refused:
  "\<not> storable 1698315945 migrated_schema
       (base_rows @ [(''outgoingPayments'',
          [[(''id'', UuidValue ''8c2f1f4e-5e0a-4c58-8f3e-0c1d2e3f4a5b'')]])])
       ''outgoingPayments''
       (pending_row ''8C2F1F4E-5E0A-4C58-8F3E-0C1D2E3F4A5B'' ''Pending''
          ''5b0c2d4e-7a1f-4e3b-9c6d-2f8a1b3c4d5e''
          ''0e9f8d7c-6b5a-4c3d-8e2f-1a0b9c8d7e6f'')"
  by (simp add: storable_def table_of_migrated accepts_row_def unique_ok_def
      stored_value_def pending_row_def columns_outgoingPayments
      column_values_def rows_of_def cell_def base_rows_def lower_hex_def)

text \<open>
  Claim C5: in every schema that a run of \<^verbatim>\<open>up\<close> produces, the quote columns
  (\<^verbatim>\<open>quoteTimestamp\<close>, \<^verbatim>\<open>quoteTargetType\<close>, \<^verbatim>\<open>quoteMaxPacketAmount\<close>, the six
  numerator and denominator columns of the rates) and the column \<^verbatim>\<open>error\<close> are
  nullable; \<^verbatim>\<open>id\<close>, \<^verbatim>\<open>state\<close>, \<^verbatim>\<open>stateAttempts\<close>, \<^verbatim>\<open>accountId\<close> and \<^verbatim>\<open>assetId\<close>
  are not, and \<^verbatim>\<open>stateAttempts\<close> defaults to 0. A row that gives only an identity, a
  state, an account and an asset is stored with zero attempts, with no quote and with no
  error; and the table takes it whenever the identity, the account and the asset are
  uuids, the state is a string of at most 255 characters, the identity is not in the
  table yet and the account and the asset are rows of their tables.
\<close>

theorem schema_admits_pending_payment:
  "up s = Inr s' \<Longrightarrow>
   map (nullable_in s' ''outgoingPayments'')
     [''quoteTimestamp'', ''quoteTargetType'', ''quoteMaxPacketAmount'',
      ''quoteMinExchangeRateNumerator'', ''quoteMinExchangeRateDenominator'',
      ''quoteLowExchangeRateEstimateNumerator'', ''quoteLowExchangeRateEstimateDenominator'',
      ''quoteHighExchangeRateEstimateNumerator'', ''quoteHighExchangeRateEstimateDenominator'',
      ''error'']
     = [Some True, Some True, Some True, Some True, Some True,
        Some True, Some True, Some True, Some True, Some True]
   \<and> map (nullable_in s' ''outgoingPayments'')
       [''id'', ''state'', ''stateAttempts'', ''accountId'', ''assetId'']
     = [Some False, Some False, Some False, Some False, Some False]
   \<and> default_in s' ''outgoingPayments'' ''stateAttempts'' = Some (Some (DefaultInt 0))
   \<and> stored_in now s' ''outgoingPayments'' (pending_row i st a b) ''stateAttempts''
     = Some (IntValue 0)
   \<and> map (stored_in now s' ''outgoingPayments'' (pending_row i st a b))
       [''quoteTimestamp'', ''quoteTargetType'', ''quoteMaxPacketAmount'',
        ''quoteMinExchangeRateNumerator'', ''quoteMinExchangeRateDenominator'',
        ''quoteLowExchangeRateEstimateNumerator'', ''quoteLowExchangeRateEstimateDenominator'',
        ''quoteHighExchangeRateEstimateNumerator'', ''quoteHighExchangeRateEstimateDenominator'',
        ''error'']
     = [Some Null, Some Null, Some Null, Some Null, Some Null,
        Some Null, Some Null, Some Null, Some Null, Some Null]
   \<and> (is_uuid_text i \<and> is_uuid_text a \<and> is_uuid_text b
        \<and> sql_text st \<and> length st \<le> 255 \<and> now \<le> max_timestamp
        \<and> canonical (UuidValue i) \<notin> set (column_values stored ''outgoingPayments'' ''id'')
        \<and> canonical (UuidValue a) \<in> set (column_values stored ''accounts'' ''id'')
        \<and> canonical (UuidValue b) \<in> set (column_values stored ''assets'' ''id'')
       \<longrightarrow> storable now s' stored ''outgoingPayments'' (pending_row i st a b))"
proof -
  assume up: "up s = Inr s'"
  have declared:
    "map (nullable_in s' ''outgoingPayments'')
       [''quoteTimestamp'', ''quoteTargetType'', ''quoteMaxPacketAmount'',
        ''quoteMinExchangeRateNumerator'', ''quoteMinExchangeRateDenominator'',
        ''quoteLowExchangeRateEstimateNumerator'', ''quoteLowExchangeRateEstimateDenominator'',
        ''quoteHighExchangeRateEstimateNumerator'', ''quoteHighExchangeRateEstimateDenominator'',
        ''error'']
       = [Some True, Some True, Some True, Some True, Some True,
          Some True, Some True, Some True, Some True, Some True]
     \<and> map (nullable_in s' ''outgoingPayments'')
         [''id'', ''state'', ''stateAttempts'', ''accountId'', ''assetId'']
       = [Some False, Some False, Some False, Some False, Some False]
     \<and> default_in s' ''outgoingPayments'' ''stateAttempts'' = Some (Some (DefaultInt 0))"
    by (simp add: nullable_in_def default_in_def column_in_up [OF up]
        columns_outgoingPayments)
  have stored:
    "stored_in now s' ''outgoingPayments'' (pending_row i st a b) ''stateAttempts''
       = Some (IntValue 0)
     \<and> map (stored_in now s' ''outgoingPayments'' (pending_row i st a b))
         [''quoteTimestamp'', ''quoteTargetType'', ''quoteMaxPacketAmount'',
          ''quoteMinExchangeRateNumerator'', ''quoteMinExchangeRateDenominator'',
          ''quoteLowExchangeRateEstimateNumerator'', ''quoteLowExchangeRateEstimateDenominator'',
          ''quoteHighExchangeRateEstimateNumerator'', ''quoteHighExchangeRateEstimateDenominator'',
          ''error'']
       = [Some Null, Some Null, Some Null, Some Null, Some Null,
          Some Null, Some Null, Some Null, Some Null, Some Null]"
    by (simp add: stored_in_def column_in_up [OF up] stored_value_def pending_row_def
        columns_outgoingPayments)
  have taken:
    "is_uuid_text i \<and> is_uuid_text a \<and> is_uuid_text b
       \<and> sql_text st \<and> length st \<le> 255 \<and> now \<le> max_timestamp
       \<and> canonical (UuidValue i) \<notin> set (column_values stored ''outgoingPayments'' ''id'')
       \<and> canonical (UuidValue a) \<in> set (column_values stored ''accounts'' ''id'')
       \<and> canonical (UuidValue b) \<in> set (column_values stored ''assets'' ''id'')
     \<longrightarrow> storable now s' stored ''outgoingPayments'' (pending_row i st a b)"
  proof
    assume h: "is_uuid_text i \<and> is_uuid_text a \<and> is_uuid_text b
       \<and> sql_text st \<and> length st \<le> 255 \<and> now \<le> max_timestamp
       \<and> canonical (UuidValue i) \<notin> set (column_values stored ''outgoingPayments'' ''id'')
       \<and> canonical (UuidValue a) \<in> set (column_values stored ''accounts'' ''id'')
       \<and> canonical (UuidValue b) \<in> set (column_values stored ''assets'' ''id'')"
    from h have "list_all (type_ok now (pending_row i st a b)) (columns outgoingPayments)"
      by (intro pending_row_types) simp_all
    moreover from h have
      "list_all (unique_ok now stored ''outgoingPayments'' (pending_row i st a b))
         (columns outgoingPayments)"
      by (intro pending_row_unique) simp
    moreover from h have
      "list_all (foreign_ok now stored outgoingPayments (pending_row i st a b))
         (foreigns outgoingPayments)"
      by (intro pending_row_foreign) simp_all
    ultimately show "storable now s' stored ''outgoingPayments'' (pending_row i st a b)"
      using pending_row_not_null [of now i st a b] pending_row_names [of i st a b]
      by (simp add: storable_def table_of_up [OF up] accepts_row_def)
  qed
  from declared stored taken show ?thesis
    by blast
qed

theorem schema_admits_pending_payment_witness:
  "up base_schema = Inr migrated_schema
   \<and> storable 1698315945 migrated_schema base_rows ''outgoingPayments''
       (pending_row ''8c2f1f4e-5e0a-4c58-8f3e-0c1d2e3f4a5b'' ''Pending''
          ''5b0c2d4e-7a1f-4e3b-9c6d-2f8a1b3c4d5e''
          ''0e9f8d7c-6b5a-4c3d-8e2f-1a0b9c8d7e6f'')
   \<and> stored_in 1698315945 migrated_schema ''outgoingPayments''
       (pending_row ''8c2f1f4e-5e0a-4c58-8f3e-0c1d2e3f4a5b'' ''Pending''
          ''5b0c2d4e-7a1f-4e3b-9c6d-2f8a1b3c4d5e''
          ''0e9f8d7c-6b5a-4c3d-8e2f-1a0b9c8d7e6f'')
       ''stateAttempts'' = Some (IntValue 0)
   \<and> nullable_in migrated_schema ''outgoingPayments'' ''error'' = Some True
   \<and> nullable_in migrated_schema ''outgoingPayments'' ''state'' = Some False"
proof -
  have h:
    "is_uuid_text ''8c2f1f4e-5e0a-4c58-8f3e-0c1d2e3f4a5b''
     \<and> is_uuid_text ''5b0c2d4e-7a1f-4e3b-9c6d-2f8a1b3c4d5e''
     \<and> is_uuid_text ''0e9f8d7c-6b5a-4c3d-8e2f-1a0b9c8d7e6f''
     \<and> sql_text ''Pending'' \<and> length ''Pending'' \<le> 255 \<and> 1698315945 \<le> max_timestamp
     \<and> canonical (UuidValue ''8c2f1f4e-5e0a-4c58-8f3e-0c1d2e3f4a5b'')
         \<notin> set (column_values base_rows ''outgoingPayments'' ''id'')
     \<and> canonical (UuidValue ''5b0c2d4e-7a1f-4e3b-9c6d-2f8a1b3c4d5e'')
         \<in> set (column_values base_rows ''accounts'' ''id'')
     \<and> canonical (UuidValue ''0e9f8d7c-6b5a-4c3d-8e2f-1a0b9c8d7e6f'')
         \<in> set (column_values base_rows ''assets'' ''id'')"
    by (simp add: is_uuid_text_def is_hex_def sql_text_def max_timestamp_def
        column_values_def rows_of_def cell_def base_rows_def lower_hex_def)
  note at_base =
    schema_admits_pending_payment [OF up_base, of 1698315945
      "''8c2f1f4e-5e0a-4c58-8f3e-0c1d2e3f4a5b''" "''Pending''"
      "''5b0c2d4e-7a1f-4e3b-9c6d-2f8a1b3c4d5e''"
      "''0e9f8d7c-6b5a-4c3d-8e2f-1a0b9c8d7e6f''" base_rows]
  from at_base h have taken:
    "storable 1698315945 migrated_schema base_rows ''outgoingPayments''
       (pending_row ''8c2f1f4e-5e0a-4c58-8f3e-0c1d2e3f4a5b'' ''Pending''
          ''5b0c2d4e-7a1f-4e3b-9c6d-2f8a1b3c4d5e''
          ''0e9f8d7c-6b5a-4c3d-8e2f-1a0b9c8d7e6f'')"
    by blast
  from at_base have rest:
    "stored_in 1698315945 migrated_schema ''outgoingPayments''
       (pending_row ''8c2f1f4e-5e0a-4c58-8f3e-0c1d2e3f4a5b'' ''Pending''
          ''5b0c2d4e-7a1f-4e3b-9c6d-2f8a1b3c4d5e''
          ''0e9f8d7c-6b5a-4c3d-8e2f-1a0b9c8d7e6f'')
       ''stateAttempts'' = Some (IntValue 0)
     \<and> nullable_in migrated_schema ''outgoingPayments'' ''error'' = Some True
     \<and> nullable_in migrated_schema ''outgoingPayments'' ''state'' = Some False"
    by simp
  from up_base taken rest show ?thesis
    by blast
qed

section \<open>Up and down (C8)\<close>

text \<open>
  Claim C8: \<^verbatim>\<open>down\<close> drops exactly the table \<^verbatim>\<open>outgoingPayments\<close> that \<^verbatim>\<open>up\<close>
  creates: after a successful \<^verbatim>\<open>up\<close>, \<^verbatim>\<open>down\<close> gives back the schema as it was;
  on a schema without the table \<^verbatim>\<open>down\<close> succeeds and changes nothing; and on any
  schema \<^verbatim>\<open>down\<close> succeeds, leaves no table of that name and leaves every other table
  as it is.
\<close>

theorem up_down_round_trip:
  "(up s = Inr s' \<longrightarrow> down s' = Inr s)
   \<and> (table_of s ''outgoingPayments'' = None \<longrightarrow> down s = Inr s)
   \<and> (\<exists>s''. down s = Inr s'' \<and> table_of s'' ''outgoingPayments'' = None
         \<and> (\<forall>n. n \<noteq> ''outgoingPayments'' \<longrightarrow> table_of s'' n = table_of s n))"
proof (intro conjI impI)
  assume "up s = Inr s'"
  from up_result [OF this] show "down s' = Inr s"
    by (simp add: down_def dropTableIfExists_def filter_absent)
next
  assume "table_of s ''outgoingPayments'' = None"
  then show "down s = Inr s"
    by (simp add: down_def dropTableIfExists_def table_of_def filter_absent)
next
  show "\<exists>s''. down s = Inr s'' \<and> table_of s'' ''outgoingPayments'' = None
         \<and> (\<forall>n. n \<noteq> ''outgoingPayments'' \<longrightarrow> table_of s'' n = table_of s n)"
    by (simp add: down_def dropTableIfExists_def table_of_def map_of_filter_same
        map_of_filter_other)
qed

theorem up_down_round_trip_witness:
  "up base_schema = Inr migrated_schema
   \<and> down migrated_schema = Inr base_schema
   \<and> table_of base_schema ''outgoingPayments'' = None
   \<and> down base_schema = Inr base_schema"
proof -
  have absent: "table_of base_schema ''outgoingPayments'' = None"
    by (simp add: table_of_def base_schema_def)
  note parts = up_down_round_trip [of base_schema migrated_schema]
  from parts [THEN conjunct1, THEN mp, OF up_base]
    parts [THEN conjunct2, THEN conjunct1, THEN mp, OF absent] up_base absent
  show ?thesis
    by blast
qed

section \<open>The loader (C9)\<close>

text \<open>
  Claim C9: when \<^verbatim>\<open>params.paymentPointerId\<close> is not a string that the validator
  takes for a UUID, the loader throws the response 400 "Invalid payment pointer ID." and
  its log of calls is empty, so \<^verbatim>\<open>getPaymentPointer\<close> was never called. It throws
  the response 404 "Payment pointer not found." exactly when the identifier is valid and
  the lookup resolves with no pointer. When the lookup resolves with a pointer, the
  loader returns that pointer with \<^verbatim>\<open>createdAt\<close> replaced by its locale string and
  every other field as it was.
\<close>

theorem loader_outcomes:
  "((\<forall>x. paymentPointerId = Some x \<longrightarrow> \<not> is_uuid x) \<longrightarrow>
      loader is_uuid getPaymentPointer toLocaleString paymentPointerId
        = (Throws (json () 400 (Some ''Invalid payment pointer ID.'')), [])
      \<and> \<not> calls_getPaymentPointer
            (snd (loader is_uuid getPaymentPointer toLocaleString paymentPointerId)))
   \<and> (fst (loader is_uuid getPaymentPointer toLocaleString paymentPointerId)
          = Throws (json () 404 (Some ''Payment pointer not found.''))
        \<longleftrightarrow> (\<exists>x. paymentPointerId = Some x \<and> is_uuid x
                  \<and> getPaymentPointer x = Resolved None))
   \<and> (\<forall>x p. paymentPointerId = Some x \<and> is_uuid x
               \<and> getPaymentPointer x = Resolved (Some p) \<longrightarrow>
        (\<exists>p'. loader is_uuid getPaymentPointer toLocaleString paymentPointerId
                = (Returns (json p' 200 None), [GetPaymentPointer x])
           \<and> createdAt p' = toLocaleString (createdAt p)
           \<and> pointer_id p' = pointer_id p \<and> url p' = url p
           \<and> publicName p' = publicName p \<and> status p' = status p \<and> asset p' = asset p))"
  by (auto simp: loader_def safeParse_uuid_def calls_getPaymentPointer_def json_def
           split: option.splits awaited.splits)

theorem loader_outcomes_witness:
  "loader example_is_uuid example_getPaymentPointer example_toLocaleString (Some ''42'')
     = (Throws (json () 400 (Some ''Invalid payment pointer ID.'')), [])
   \<and> \<not> calls_getPaymentPointer
         (snd (loader example_is_uuid example_getPaymentPointer example_toLocaleString
                 (Some ''42'')))
   \<and> fst (loader example_is_uuid example_getPaymentPointer example_toLocaleString
            (Some ''00000000-0000-0000-0000-000000000000''))
       = Throws (json () 404 (Some ''Payment pointer not found.''))
   \<and> fst (loader example_is_uuid example_getPaymentPointer example_toLocaleString
            (Some ''8c2f1f4e-5e0a-4c58-8f3e-0c1d2e3f4a5b''))
       = Returns (json (example_pointer\<lparr>createdAt := ''5/1/2023, 10:00:00 AM''\<rparr>) 200 None)"
proof -
  have a: "\<forall>x. Some ''42'' = Some x \<longrightarrow> \<not> example_is_uuid x"
    by (simp add: example_is_uuid_def)
  have b: "\<exists>x. Some ''00000000-0000-0000-0000-000000000000'' = Some x \<and> example_is_uuid x
             \<and> example_getPaymentPointer x = Resolved None"
    by (simp add: example_is_uuid_def example_getPaymentPointer_def example_pointer_def)
  have c: "Some ''8c2f1f4e-5e0a-4c58-8f3e-0c1d2e3f4a5b''
             = Some ''8c2f1f4e-5e0a-4c58-8f3e-0c1d2e3f4a5b''
           \<and> example_is_uuid ''8c2f1f4e-5e0a-4c58-8f3e-0c1d2e3f4a5b''
           \<and> example_getPaymentPointer ''8c2f1f4e-5e0a-4c58-8f3e-0c1d2e3f4a5b''
             = Resolved (Some example_pointer)"
    by (simp add: example_is_uuid_def example_getPaymentPointer_def example_pointer_def)
  note invalid =
    loader_outcomes [of "Some ''42''" example_is_uuid example_getPaymentPointer
      example_toLocaleString, THEN conjunct1, THEN mp, OF a]
  note missing =
    loader_outcomes [of "Some ''00000000-0000-0000-0000-000000000000''" example_is_uuid
      example_getPaymentPointer example_toLocaleString,
      THEN conjunct2, THEN conjunct1, THEN iffD2, OF b]
  note found =
    loader_outcomes [of "Some ''8c2f1f4e-5e0a-4c58-8f3e-0c1d2e3f4a5b''" example_is_uuid
      example_getPaymentPointer example_toLocaleString,
      THEN conjunct2, THEN conjunct2, THEN spec, THEN spec, THEN mp, OF c]
  from found obtain p' where
    r: "loader example_is_uuid example_getPaymentPointer example_toLocaleString
          (Some ''8c2f1f4e-5e0a-4c58-8f3e-0c1d2e3f4a5b'')
        = (Returns (json p' 200 None), [GetPaymentPointer ''8c2f1f4e-5e0a-4c58-8f3e-0c1d2e3f4a5b''])"
    and f: "createdAt p' = example_toLocaleString (createdAt example_pointer)"
      "pointer_id p' = pointer_id example_pointer" "url p' = url example_pointer"
      "publicName p' = publicName example_pointer" "status p' = status example_pointer"
      "asset p' = asset example_pointer"
    by blast
  from f have "p' = example_pointer\<lparr>createdAt := ''5/1/2023, 10:00:00 AM''\<rparr>"
    by (simp add: example_toLocaleString_def)
  with r have returned:
    "fst (loader example_is_uuid example_getPaymentPointer example_toLocaleString
            (Some ''8c2f1f4e-5e0a-4c58-8f3e-0c1d2e3f4a5b''))
       = Returns (json (example_pointer\<lparr>createdAt := ''5/1/2023, 10:00:00 AM''\<rparr>) 200 None)"
    by simp
  show ?thesis
    by (rule conjI [OF invalid [THEN conjunct1]
          conjI [OF invalid [THEN conjunct2] conjI [OF missing returned]]])
qed

section \<open>The action (C10)\<close>

text \<open>
  Claim C10: whenever the validation of the form data fails, the action returns the
  response 400 that carries the field errors, and its log of calls is empty, so
  \<^verbatim>\<open>updatePaymentPointer\<close> was never invoked. Every call of
  \<^verbatim>\<open>updatePaymentPointer\<close> in the log is on the data that the validation succeeded
  with. The action returns the redirect only when that call resolved with a response
  that reports success; the redirect is what \<^verbatim>\<open>setMessageAndRedirect\<close> makes of the
  message "Payment pointer was updated" of type success.
\<close>

theorem action_no_mutation_on_invalid_input:
  "(\<forall>errs. safeParse (fromEntries (formData req)) = Inl errs \<longrightarrow>
      action safeParse updatePaymentPointer getSession setMessageAndRedirect req
        = (Returns (Json (json \<lparr>fieldErrors = errs, error_message = []\<rparr> 400 None)), [])
      \<and> \<not> calls_updatePaymentPointer
            (snd (action safeParse updatePaymentPointer getSession setMessageAndRedirect req)))
   \<and> (\<forall>d. UpdatePaymentPointer d
              \<in> set (snd (action safeParse updatePaymentPointer getSession
                            setMessageAndRedirect req)) \<longrightarrow>
        safeParse (fromEntries (formData req)) = Inr d)
   \<and> (\<forall>r. fst (action safeParse updatePaymentPointer getSession setMessageAndRedirect req)
              = Returns (Redirect r) \<longrightarrow>
        (\<exists>data resp session.
            safeParse (fromEntries (formData req)) = Inr data
          \<and> updatePaymentPointer data = Resolved (Some resp) \<and> success resp
          \<and> getSession (cookie req) = Resolved session
          \<and> setMessageAndRedirect session
               \<lparr>content = ''Payment pointer was updated'', message_type = ''success''\<rparr> ''.''
              = Resolved r))"
  by (auto simp: action_def calls_updatePaymentPointer_def json_def Let_def
           split: sum.splits option.splits awaited.splits if_splits)

lemma invalid_request_parse:
  "example_safeParse (fromEntries (formData invalid_request))
     = Inl [(''status'', [''Invalid enum value''])]"
  by (simp add: example_safeParse_def fromEntries_def invalid_request_def)

lemma valid_request_action:
  "action example_safeParse example_updatePaymentPointer example_getSession
     example_setMessageAndRedirect valid_request
   = (Returns (Redirect ''.''),
      [UpdatePaymentPointer (''p1'', ''ACTIVE''), GetSession (Some ''c''),
       SetMessageAndRedirect ''session''
         \<lparr>content = ''Payment pointer was updated'', message_type = ''success''\<rparr> ''.''])"
  by (simp add: action_def example_safeParse_def fromEntries_def valid_request_def
      example_updatePaymentPointer_def example_getSession_def
      example_setMessageAndRedirect_def Let_def)

theorem action_no_mutation_on_invalid_input_witness:
  "action example_safeParse example_updatePaymentPointer example_getSession
     example_setMessageAndRedirect invalid_request
     = (Returns (Json (json \<lparr>fieldErrors = [(''status'', [''Invalid enum value''])],
                             error_message = []\<rparr> 400 None)), [])
   \<and> \<not> calls_updatePaymentPointer
         (snd (action example_safeParse example_updatePaymentPointer example_getSession
                 example_setMessageAndRedirect invalid_request))
   \<and> UpdatePaymentPointer (''p1'', ''ACTIVE'')
       \<in> set (snd (action example_safeParse example_updatePaymentPointer example_getSession
                     example_setMessageAndRedirect valid_request))
   \<and> example_safeParse (fromEntries (formData valid_request)) = Inr (''p1'', ''ACTIVE'')
   \<and> fst (action example_safeParse example_updatePaymentPointer example_getSession
            example_setMessageAndRedirect valid_request) = Returns (Redirect ''.'')
   \<and> (\<exists>data resp session.
          example_safeParse (fromEntries (formData valid_request)) = Inr data
        \<and> example_updatePaymentPointer data = Resolved (Some resp) \<and> success resp
        \<and> example_getSession (cookie valid_request) = Resolved session
        \<and> example_setMessageAndRedirect session
             \<lparr>content = ''Payment pointer was updated'', message_type = ''success''\<rparr> ''.''
            = Resolved ''.'')"
proof -
  note invalid =
    action_no_mutation_on_invalid_input [of example_safeParse invalid_request
      example_updatePaymentPointer example_getSession example_setMessageAndRedirect,
      THEN conjunct1, THEN spec, THEN mp, OF invalid_request_parse]
  have called:
    "UpdatePaymentPointer (''p1'', ''ACTIVE'')
       \<in> set (snd (action example_safeParse example_updatePaymentPointer example_getSession
                     example_setMessageAndRedirect valid_request))"
    by (simp add: valid_request_action)
  note parsed =
    action_no_mutation_on_invalid_input [of example_safeParse valid_request
      example_updatePaymentPointer example_getSession example_setMessageAndRedirect,
      THEN conjunct2, THEN conjunct1, THEN spec, THEN mp, OF called]
  have redirected:
    "fst (action example_safeParse example_updatePaymentPointer example_getSession
            example_setMessageAndRedirect valid_request) = Returns (Redirect ''.'')"
    by (simp add: valid_request_action)
  note succeeded =
    action_no_mutation_on_invalid_input [of example_safeParse valid_request
      example_updatePaymentPointer example_getSession example_setMessageAndRedirect,
      THEN conjunct2, THEN conjunct2, THEN spec, THEN mp, OF redirected]
  show ?thesis
    by (rule conjI [OF invalid [THEN conjunct1] conjI [OF invalid [THEN conjunct2]
          conjI [OF called conjI [OF parsed conjI [OF redirected succeeded]]]]])
qed

section \<open>Rounding of a quote (C6)\<close>

lemma floor_mul_eq: "floor_mul a r = \<lfloor>of_nat a * rate_value r\<rfloor>"
proof -
  have "(of_nat a :: rat) * rate_value r
          = of_int (int a * numerator r) / of_int (denominator r)"
    by (simp add: rate_value_def)
  then show ?thesis
    unfolding floor_mul_def by (simp only: floor_divide_of_int_eq)
qed

lemma ceil_div_eq: "ceil_div a r = \<lceil>of_nat a / rate_value r\<rceil>"
proof -
  have "- ((of_nat a :: rat) / rate_value r)
          = of_int (- (int a * denominator r)) / of_int (numerator r)"
    by (simp add: rate_value_def)
  then have "\<lfloor>- ((of_nat a :: rat) / rate_value r)\<rfloor>
               = (- (int a * denominator r)) div numerator r"
    by (simp only: floor_divide_of_int_eq)
  then show ?thesis
    unfolding ceil_div_def ceiling_def by simp
qed

lemma apply_slippage_value:
  "denominator slippage \<noteq> 0 \<Longrightarrow>
   rate_value (apply_slippage slippage low) = rate_value low * (1 - rate_value slippage)"
  by (simp add: rate_value_def apply_slippage_def field_simps)

text \<open>
  Claim C6: for every quote that the engine produces, the guaranteed rate is the probed
  low rate less the slippage fraction of it; a fixed-send quote keeps the send amount and
  receives \<open>floor(sendAmount * minExchangeRate)\<close>; a fixed-delivery quote keeps the
  delivery amount and sends \<open>ceil(deliveryAmount / minExchangeRate)\<close>. In particular a
  send amount of 10000 at a probed low rate of 0.90 with 1% slippage is quoted at the
  rate 0.891 and receives 8910.
\<close>

theorem quote_rounding:
  "(compute_quote slippage now ttype a low high maxPacket = Inr r \<longrightarrow>
      (denominator slippage \<noteq> 0 \<longrightarrow>
         rate_value (minExchangeRate (result_quote r))
           = rate_value low * (1 - rate_value slippage))
    \<and> (ttype = FixedSend \<longrightarrow>
         result_sendAmount r = a
       \<and> int (result_receiveAmount r)
           = \<lfloor>of_nat a * rate_value (minExchangeRate (result_quote r))\<rfloor>)
    \<and> (ttype = FixedDelivery \<longrightarrow>
         result_receiveAmount r = a
       \<and> int (result_sendAmount r)
           = \<lceil>of_nat a / rate_value (minExchangeRate (result_quote r))\<rceil>))
   \<and> (1 \<le> maxPacket \<longrightarrow>
        (\<exists>r. compute_quote one_percent now FixedSend 10000 usd_eur_low usd_eur_high maxPacket
                = Inr r
           \<and> rate_value (minExchangeRate (result_quote r)) = 891 / 1000
           \<and> result_receiveAmount r = 8910))"
proof (intro conjI impI)
  assume q: "compute_quote slippage now ttype a low high maxPacket = Inr r"
  then have m: "minExchangeRate (result_quote r) = apply_slippage slippage low"
    by (auto simp: compute_quote_def Let_def split: if_splits target_type.splits)
  { assume "denominator slippage \<noteq> 0"
    then show "rate_value (minExchangeRate (result_quote r))
                 = rate_value low * (1 - rate_value slippage)"
      by (simp add: m apply_slippage_value) }
  { assume t: "ttype = FixedSend"
    from q t show "result_sendAmount r = a"
      by (auto simp: compute_quote_def Let_def split: if_splits)
    from q t have "int (result_receiveAmount r) = floor_mul a (apply_slippage slippage low)"
      by (auto simp: compute_quote_def Let_def split: if_splits)
    then show "int (result_receiveAmount r)
                 = \<lfloor>of_nat a * rate_value (minExchangeRate (result_quote r))\<rfloor>"
      by (simp add: m floor_mul_eq) }
  { assume t: "ttype = FixedDelivery"
    from q t show "result_receiveAmount r = a"
      by (auto simp: compute_quote_def Let_def split: if_splits)
    from q t have "int (result_sendAmount r) = ceil_div a (apply_slippage slippage low)"
      by (auto simp: compute_quote_def Let_def split: if_splits)
    then show "int (result_sendAmount r)
                 = \<lceil>of_nat a / rate_value (minExchangeRate (result_quote r))\<rceil>"
      by (simp add: m ceil_div_eq) }
next
  assume "1 \<le> maxPacket"
  then show "\<exists>r. compute_quote one_percent now FixedSend 10000 usd_eur_low usd_eur_high maxPacket
                = Inr r
           \<and> rate_value (minExchangeRate (result_quote r)) = 891 / 1000
           \<and> result_receiveAmount r = 8910"
    by (simp add: compute_quote_def Let_def rate_le_def apply_slippage_def floor_mul_def
        rate_value_def usd_eur_low_def usd_eur_high_def one_percent_def)
qed

lemma example_delivery_quote:
  "compute_quote one_percent 0 FixedDelivery 5000 usd_eur_low usd_eur_high 1000
   = Inr \<lparr>result_quote =
            \<lparr>quote_createdAt = 0, targetType = FixedDelivery, maxPacketAmount = 1000,
             minExchangeRate = \<lparr>numerator = 8910, denominator = 10000\<rparr>,
             estimatedRateLow = usd_eur_low, estimatedRateHigh = usd_eur_high\<rparr>,
          result_sendAmount = 5612, result_receiveAmount = 5000\<rparr>"
  by (simp add: compute_quote_def Let_def rate_le_def apply_slippage_def ceil_div_def
      usd_eur_low_def usd_eur_high_def one_percent_def)

theorem quote_rounding_witness:
  "compute_quote one_percent 0 FixedDelivery 5000 usd_eur_low usd_eur_high 1000
     = Inr \<lparr>result_quote =
              \<lparr>quote_createdAt = 0, targetType = FixedDelivery, maxPacketAmount = 1000,
               minExchangeRate = \<lparr>numerator = 8910, denominator = 10000\<rparr>,
               estimatedRateLow = usd_eur_low, estimatedRateHigh = usd_eur_high\<rparr>,
            result_sendAmount = 5612, result_receiveAmount = 5000\<rparr>
   \<and> (5612 :: int) = \<lceil>5000 / rate_value \<lparr>numerator = 8910, denominator = 10000\<rparr>\<rceil>
   \<and> rate_value \<lparr>numerator = 8910, denominator = 10000\<rparr>
       = rate_value usd_eur_low * (1 - rate_value one_percent)
   \<and> (1 :: nat) \<le> 1000
   \<and> (\<exists>r. compute_quote one_percent 0 FixedSend 10000 usd_eur_low usd_eur_high 1000 = Inr r
         \<and> rate_value (minExchangeRate (result_quote r)) = 891 / 1000
         \<and> result_receiveAmount r = 8910)"
proof -
  note general =
    quote_rounding [of one_percent 0 FixedDelivery 5000 usd_eur_low usd_eur_high 1000,
      THEN conjunct1, THEN mp, OF example_delivery_quote]
  have d: "denominator one_percent \<noteq> 0"
    by (simp add: one_percent_def)
  from general [THEN conjunct1, THEN mp, OF d]
  have rate: "rate_value \<lparr>numerator = 8910, denominator = 10000\<rparr>
                = rate_value usd_eur_low * (1 - rate_value one_percent)"
    by simp
  from general [THEN conjunct2, THEN conjunct2, THEN mp, OF refl]
  have sent: "(5612 :: int) = \<lceil>5000 / rate_value \<lparr>numerator = 8910, denominator = 10000\<rparr>\<rceil>"
    by simp
  have le: "(1 :: nat) \<le> 1000"
    by simp
  note example =
    quote_rounding [of one_percent 0 FixedDelivery 5000 usd_eur_low usd_eur_high 1000,
      THEN conjunct2, THEN mp, OF le]
  show ?thesis
    by (rule conjI [OF example_delivery_quote conjI [OF sent conjI [OF rate
          conjI [OF le example]]]])
qed

section \<open>Terminal states (C7)\<close>

lemma advance_terminal:
  "terminal (state p) \<Longrightarrow> advance m p ev = Some (p, Some AlreadyTerminal)"
  by simp

lemma advance_all_terminal:
  "terminal (state p) \<Longrightarrow>
   advance_all m p evs = Some (p, replicate (length evs) (Some AlreadyTerminal))"
  by (induction evs) (simp_all del: advance.simps add: advance_terminal)

text \<open>
  Claim C7: for a payment whose state is \<open>Completed\<close>, \<open>Failed\<close> or \<open>Cancelled\<close>,
  a call of \<open>advance\<close> with any outcome reports \<open>AlreadyTerminal\<close> and leaves the
  state, the error and the two amounts as they were; so does every call of any sequence
  of further calls, which ends on the same payment.
\<close>

theorem terminal_immutability:
  "state p \<in> {Completed, Failed, Cancelled} \<Longrightarrow>
   (\<exists>p'. advance maxAttempts p ev = Some (p', Some AlreadyTerminal)
      \<and> state p' = state p \<and> error p' = error p
      \<and> sendAmount p' = sendAmount p \<and> receiveAmount p' = receiveAmount p)
   \<and> advance_all maxAttempts p evs
       = Some (p, replicate (length evs) (Some AlreadyTerminal))"
proof -
  assume "state p \<in> {Completed, Failed, Cancelled}"
  then have t: "terminal (state p)"
    by (auto simp: terminal_def)
  show ?thesis
    using advance_terminal [OF t] advance_all_terminal [OF t] by simp
qed

lemma example_payment_completes:
  "advance_all 3 example_payment [QuoteSucceeded example_quote, BeginTransmission, FullyDelivered]
   = Some (completed_payment, [None, None, None])"
  by (simp add: example_payment_def completed_payment_def terminal_def)

theorem terminal_immutability_witness:
  "advance_all 3 example_payment [QuoteSucceeded example_quote, BeginTransmission, FullyDelivered]
     = Some (completed_payment, [None, None, None])
   \<and> state completed_payment \<in> {Completed, Failed, Cancelled}
   \<and> (\<exists>p'. advance 3 completed_payment (TransientFailure ''timeout'')
              = Some (p', Some AlreadyTerminal)
         \<and> state p' = state completed_payment \<and> error p' = error completed_payment
         \<and> sendAmount p' = sendAmount completed_payment
         \<and> receiveAmount p' = receiveAmount completed_payment)
   \<and> advance_all 3 completed_payment [FatalFailure ''rejected'', BeginTransmission]
       = Some (completed_payment, [Some AlreadyTerminal, Some AlreadyTerminal])"
proof -
  have t: "state completed_payment \<in> {Completed, Failed, Cancelled}"
    by (simp add: completed_payment_def)
  from terminal_immutability [OF t, of 3 "TransientFailure ''timeout''"
      "[FatalFailure ''rejected'', BeginTransmission]"]
  have "(\<exists>p'. advance 3 completed_payment (TransientFailure ''timeout'')
              = Some (p', Some AlreadyTerminal)
         \<and> state p' = state completed_payment \<and> error p' = error completed_payment
         \<and> sendAmount p' = sendAmount completed_payment
         \<and> receiveAmount p' = receiveAmount completed_payment)
     \<and> advance_all 3 completed_payment [FatalFailure ''rejected'', BeginTransmission]
       = Some (completed_payment, [Some AlreadyTerminal, Some AlreadyTerminal])"
    by (simp del: advance.simps advance_all.simps)
  with example_payment_completes t show ?thesis
    by blast
qed

end
